theory Spec2Isabelle
  imports Complex_Main "HOL-Library.AList"
begin

section \<open>JavaScript values\<close>

text \<open>
  The configuration objects of \<^verbatim>\<open>config.js\<close> are plain JavaScript data. A number is an
  IEEE double: not-a-number, one of the two infinities, or a finite value, which is a
  rational number (the two zeros are identified: truthiness and \<^verbatim>\<open>isNaN\<close>, the only
  tests the code makes on a number, do not tell them apart).

  An object is the list of its own enumerable properties in the order in which
  \<^verbatim>\<open>for (const key in obj)\<close> visits them; a property read \<^verbatim>\<open>obj[key]\<close> is a lookup in
  that list and gives \<^verbatim>\<open>undefined\<close> for a key that is not there. The members that every
  object inherits from \<^verbatim>\<open>Object.prototype\<close> are not part of this model, and objects are
  trees: no object is reachable along two paths.
\<close>

datatype jsnum = NaN | PosInfinity | NegInfinity | Finite rat

datatype jsval =
    JUndefined
  | JNull
  | JBool bool
  | JNum jsnum
  | JStr string
  | JArr "jsval list"
  | JObj "(string \<times> jsval) list"

text \<open>ToBoolean: what \<^verbatim>\<open>if (v)\<close>, \<^verbatim>\<open>!v\<close> and \<^verbatim>\<open>a && b\<close> test.\<close>

fun truthy :: "jsval \<Rightarrow> bool" where
  "truthy JUndefined = False"
| "truthy JNull = False"
| "truthy (JBool b) = b"
| "truthy (JNum n) = (n \<noteq> NaN \<and> n \<noteq> Finite 0)"
| "truthy (JStr s) = (s \<noteq> [])"
| "truthy (JArr items) = True"
| "truthy (JObj props) = True"

text \<open>
  The global \<^verbatim>\<open>isNaN\<close> applied to a number, and the strict inequality \<^verbatim>\<open>a !== b\<close> of two
  numbers: not-a-number is unequal to every number, itself included.
\<close>

definition isNaN :: "jsnum \<Rightarrow> bool" where
  "isNaN num = (num = NaN)"

definition strictNotEqual :: "jsnum \<Rightarrow> jsnum \<Rightarrow> bool" where
  "strictNotEqual a b = (a = NaN \<or> b = NaN \<or> a \<noteq> b)"

text \<open>The decimal name of an array index, the key under which \<^verbatim>\<open>for ... in\<close> visits it.\<close>

fun indexKey :: "nat \<Rightarrow> string" where
  "indexKey n =
     (if n < 10 then [char_of (48 + n)]
      else indexKey (n div 10) @ [char_of (48 + n mod 10)])"

declare indexKey.simps [simp del]

section \<open>The configuration data and the surroundings of the module\<close>

text \<open>
  A configuration has two layers (\<^verbatim>\<open>.conf.default.js\<close>: ``1. Category 2. Value''): a
  schema maps category names to categories, a category maps value names to values. The
  overrides and the secret configuration have the same form.
\<close>

type_synonym category = "(string \<times> jsval) list"
type_synonym schema = "(string \<times> category) list"

text \<open>
  \<^verbatim>\<open>ConfigOpts\<close>. A field that the caller leaves out is \<open>None\<close>;
  \<^verbatim>\<open>disableEnvarParsing\<close> is kept as the value it is, since the code compares it with
  \<^verbatim>\<open>true\<close> by \<^verbatim>\<open>!==\<close>.
\<close>

record opts =
  overrides :: "schema option"
  workingDir :: "string option"
  disableEnvarParsing :: jsval

text \<open>
  What \<^verbatim>\<open>loadConfig\<close> reads from outside its arguments: the builtins \<^verbatim>\<open>JSON.parse\<close>
  (\<open>None\<close> when it throws a SyntaxError), \<^verbatim>\<open>Number\<close> and \<^verbatim>\<open>path.join\<close>, the module
  loader \<^verbatim>\<open>require\<close> (\<open>None\<close> when it throws), \<^verbatim>\<open>process.cwd()\<close> and \<^verbatim>\<open>process.env\<close>.
  They are parameters of the model: every general statement below holds for all of them.
\<close>

record runtime =
  JSON_parse :: "string \<Rightarrow> jsval option"
  Number :: "jsval \<Rightarrow> jsnum"
  path_join :: "string \<Rightarrow> string \<Rightarrow> string"
  require :: "string \<Rightarrow> schema option"
  process_cwd :: string
  process_env :: "string \<Rightarrow> string option"

text \<open>
  The exceptions that leave \<^verbatim>\<open>loadConfig\<close>: a failed \<^verbatim>\<open>require\<close> of the path given, and
  \<^verbatim>\<open>new Error(message)\<close>.
\<close>

datatype error = ModuleNotFound string | Error string

text \<open>
  \<^verbatim>\<open>this\<close> inside the arrow function \<^verbatim>\<open>loadConfig\<close> is the \<^verbatim>\<open>this\<close> of the enclosing
  CommonJS module, which is the module's initial \<^verbatim>\<open>exports\<close> object. Neither file adds a
  property to it (both replace \<^verbatim>\<open>module.exports\<close> instead), so it is the empty object.
\<close>

definition module_this :: jsval where
  "module_this = JObj []"

section \<open>config.js\<close>

subsection \<open>checkExists\<close>

text \<open>
  \<^verbatim>\<open>obj[categoryKey] && typeof obj[categoryKey][valueKey] !== 'undefined'\<close>: a category, when
  present, is an object and so truthy.
\<close>

definition checkExists :: "schema \<Rightarrow> string \<Rightarrow> string \<Rightarrow> bool" where
  "checkExists obj categoryKey valueKey =
     (case map_of obj categoryKey of
        None \<Rightarrow> False
      | Some category \<Rightarrow>
          (case map_of category valueKey of
             None \<Rightarrow> False
           | Some v \<Rightarrow> v \<noteq> JUndefined))"

text \<open>The read \<^verbatim>\<open>obj[categoryKey][valueKey]\<close>, which the code makes only after \<open>checkExists\<close>.\<close>

definition getValue :: "schema \<Rightarrow> string \<Rightarrow> string \<Rightarrow> jsval" where
  "getValue obj categoryKey valueKey =
     (case map_of obj categoryKey of
        None \<Rightarrow> JUndefined
      | Some category \<Rightarrow>
          (case map_of category valueKey of
             None \<Rightarrow> JUndefined
           | Some v \<Rightarrow> v))"

subsection \<open>checkForUndefinedRecursive\<close>

text \<open>
  The result is the boolean returned and the lines written by \<^verbatim>\<open>console.error\<close>, in
  order. \<open>checkProps\<close> is the \<^verbatim>\<open>for ... in\<close> loop over the properties of an object and
  \<open>checkItems\<close> the same loop over the elements of an array, whose keys are the indices.
  The loop does not run on \<^verbatim>\<open>null\<close>, a boolean or a number.
\<close>

fun checkForUndefinedRecursive :: "jsval \<Rightarrow> string \<Rightarrow> bool \<times> string list"
  and checkProps :: "(string \<times> jsval) list \<Rightarrow> bool \<times> string list"
  and checkItems :: "jsval list \<Rightarrow> nat \<Rightarrow> bool \<times> string list"
where
  "checkForUndefinedRecursive JUndefined originalKey =
     (False, [''Item with key '' @ originalKey @ '' is undefined''])"
| "checkForUndefinedRecursive (JStr s) originalKey = (True, [])"
| "checkForUndefinedRecursive (JObj props) originalKey = checkProps props"
| "checkForUndefinedRecursive (JArr items) originalKey = checkItems items 0"
| "checkForUndefinedRecursive JNull originalKey = (True, [])"
| "checkForUndefinedRecursive (JBool b) originalKey = (True, [])"
| "checkForUndefinedRecursive (JNum n) originalKey = (True, [])"
| "checkProps [] = (True, [])"
| "checkProps ((key, item) # rest) =
     (case checkForUndefinedRecursive item key of
        (ok, out) \<Rightarrow>
          if \<not> ok then (False, out)
          else (case checkProps rest of (ok', out') \<Rightarrow> (ok', out @ out')))"
| "checkItems [] i = (True, [])"
| "checkItems (item # rest) i =
     (case checkForUndefinedRecursive item (indexKey i) of
        (ok, out) \<Rightarrow>
          if \<not> ok then (False, out)
          else (case checkItems rest (Suc i) of (ok', out') \<Rightarrow> (ok', out @ out')))"

subsection \<open>loadConfig\<close>

text \<open>
  The working directory (\<^verbatim>\<open>workingDir = process.cwd()\<close> when the option is left out) and
  the two \<^verbatim>\<open>require\<close> calls: the default schema, whose failure is not caught, and the
  secret configuration, whose failure leaves \<^verbatim>\<open>secretConfig = {}\<close>.
\<close>

definition workingDirOf :: "runtime \<Rightarrow> opts \<Rightarrow> string" where
  "workingDirOf rt os = (case workingDir os of None \<Rightarrow> process_cwd rt | Some d \<Rightarrow> d)"

definition defaultPath :: "runtime \<Rightarrow> opts \<Rightarrow> string" where
  "defaultPath rt os = path_join rt (workingDirOf rt os) ''.conf.default.js''"

definition secretPath :: "runtime \<Rightarrow> opts \<Rightarrow> string" where
  "secretPath rt os = path_join rt (workingDirOf rt os) ''.conf.js''"

definition loadSecret :: "runtime \<Rightarrow> opts \<Rightarrow> schema" where
  "loadSecret rt os = (case require rt (secretPath rt os) of None \<Rightarrow> [] | Some s \<Rightarrow> s)"

text \<open>The name of the environment variable of a value: \<^verbatim>\<open>`conf_${categoryKey}_${valueKey}`\<close>.\<close>

definition varName :: "string \<Rightarrow> string \<Rightarrow> string" where
  "varName categoryKey valueKey = ''conf_'' @ categoryKey @ ''_'' @ valueKey"

text \<open>
  The value stored for an environment string (lines 87 to 100). The two files differ in
  one line, the test on \<^verbatim>\<open>num\<close>: \<^verbatim>\<open>num !== NaN\<close> in \<^verbatim>\<open>src/config.js\<close> and \<^verbatim>\<open>!isNaN(num)\<close>
  in the second file. That test is the parameter \<open>numTest\<close>.
\<close>

definition envarValue :: "(jsnum \<Rightarrow> bool) \<Rightarrow> runtime \<Rightarrow> opts \<Rightarrow> string \<Rightarrow> jsval" where
  "envarValue numTest rt os s =
     (if disableEnvarParsing os \<noteq> JBool True then
        (let v = (case JSON_parse rt s of None \<Rightarrow> JStr s | Some j \<Rightarrow> j);
             num = Number rt v
         in if numTest num then JNum num else v)
      else JStr s)"

text \<open>
  The body of the inner loop for one \<^verbatim>\<open>valueKey\<close>. The assignment
  \<^verbatim>\<open>category[valueKey] = v\<close> is \<open>AList.update\<close>; an environment variable counts when it is
  set to a non-empty string.
\<close>

definition resolveValue ::
  "(jsnum \<Rightarrow> bool) \<Rightarrow> runtime \<Rightarrow> opts \<Rightarrow> schema \<Rightarrow> string \<Rightarrow> string \<Rightarrow> category \<Rightarrow> category"
where
  "resolveValue numTest rt os secretConfig categoryKey valueKey category =
     (if (case overrides os of None \<Rightarrow> False | Some ov \<Rightarrow> checkExists ov categoryKey valueKey)
      then AList.update valueKey
             (case overrides os of None \<Rightarrow> JUndefined | Some ov \<Rightarrow> getValue ov categoryKey valueKey)
             category
      else
        (case process_env rt (varName categoryKey valueKey) of
           Some (c # cs) \<Rightarrow> AList.update valueKey (envarValue numTest rt os (c # cs)) category
         | _ \<Rightarrow>
             if checkExists secretConfig categoryKey valueKey
             then AList.update valueKey (getValue secretConfig categoryKey valueKey) category
             else category))"

fun forValueKeys ::
  "(jsnum \<Rightarrow> bool) \<Rightarrow> runtime \<Rightarrow> opts \<Rightarrow> schema \<Rightarrow> string \<Rightarrow> string list \<Rightarrow> category \<Rightarrow> category"
where
  "forValueKeys numTest rt os secretConfig categoryKey [] category = category"
| "forValueKeys numTest rt os secretConfig categoryKey (valueKey # keys) category =
     forValueKeys numTest rt os secretConfig categoryKey keys
       (resolveValue numTest rt os secretConfig categoryKey valueKey category)"

fun forCategoryKeys ::
  "(jsnum \<Rightarrow> bool) \<Rightarrow> runtime \<Rightarrow> opts \<Rightarrow> schema \<Rightarrow> string list \<Rightarrow> schema \<Rightarrow> schema"
where
  "forCategoryKeys numTest rt os secretConfig [] config = config"
| "forCategoryKeys numTest rt os secretConfig (categoryKey # keys) config =
     (case map_of config categoryKey of
        None \<Rightarrow> forCategoryKeys numTest rt os secretConfig keys config
      | Some category \<Rightarrow>
          forCategoryKeys numTest rt os secretConfig keys
            (AList.update categoryKey
               (forValueKeys numTest rt os secretConfig categoryKey (map fst category) category)
               config))"

text \<open>
  The condition of the final \<^verbatim>\<open>throw\<close>:
  \<^verbatim>\<open>config.config && config.config.errorOnUndefined && !checkForUndefinedRecursive(this)\<close>.
\<close>

definition undefinedDetected :: "schema \<Rightarrow> bool" where
  "undefinedDetected config =
     (case map_of config ''config'' of
        None \<Rightarrow> False
      | Some c \<Rightarrow>
          (case map_of c ''errorOnUndefined'' of
             None \<Rightarrow> False
           | Some e \<Rightarrow> truthy e \<and> \<not> fst (checkForUndefinedRecursive module_this ''this'')))"

definition loadConfigWith ::
  "(jsnum \<Rightarrow> bool) \<Rightarrow> runtime \<Rightarrow> schema option \<Rightarrow> opts \<Rightarrow> error + schema"
where
  "loadConfigWith numTest rt config os =
     (case (case config of
              Some c \<Rightarrow> Inr c
            | None \<Rightarrow>
                (case require rt (defaultPath rt os) of
                   None \<Rightarrow> Inl (ModuleNotFound (defaultPath rt os))
                 | Some c \<Rightarrow> Inr c)) of
        Inl e \<Rightarrow> Inl e
      | Inr c \<Rightarrow>
          (let secretConfig = loadSecret rt os;
               resolved = forCategoryKeys numTest rt os secretConfig (map fst c) c
           in if undefinedDetected resolved
              then Inl (Error ''Undefined configurations detected'')
              else Inr resolved))"

text \<open>\<^verbatim>\<open>loadConfig\<close> of \<^verbatim>\<open>src/config.js\<close> (line 99: \<^verbatim>\<open>if (num !== NaN)\<close>).\<close>

definition loadConfig :: "runtime \<Rightarrow> schema option \<Rightarrow> opts \<Rightarrow> error + schema" where
  "loadConfig = loadConfigWith (\<lambda>num. strictNotEqual num NaN)"

text \<open>\<^verbatim>\<open>loadConfig\<close> of the second file (line 370: \<^verbatim>\<open>if (!isNaN(num))\<close>).\<close>

definition loadConfig_part_000 :: "runtime \<Rightarrow> schema option \<Rightarrow> opts \<Rightarrow> error + schema" where
  "loadConfig_part_000 = loadConfigWith (\<lambda>num. \<not> isNaN num)"

section \<open>Notions of the specification\<close>

text \<open>
  ``Any one undefined property fails the whole check'': a value has an undefined leaf when
  it is \<^verbatim>\<open>undefined\<close> or when a property of the object, or an element of the array, has
  one. A string has none.
\<close>

fun undefinedLeaf :: "jsval \<Rightarrow> bool" where
  "undefinedLeaf JUndefined = True"
| "undefinedLeaf (JObj props) = (\<exists>p \<in> set props. undefinedLeaf (snd p))"
| "undefinedLeaf (JArr items) = (\<exists>v \<in> set items. undefinedLeaf v)"
| "undefinedLeaf v = False"

text \<open>A schema as the JavaScript object it is.\<close>

definition schemaValue :: "schema \<Rightarrow> jsval" where
  "schemaValue S = JObj (map (\<lambda>(c, cat). (c, JObj cat)) S)"

text \<open>The category/key shape of a schema: its category names, each with its value names.\<close>

definition shape :: "schema \<Rightarrow> (string \<times> string list) list" where
  "shape S = map (\<lambda>(c, cat). (c, map fst cat)) S"




text \<open>
  The value that the loop body stores for a pair, if it stores one: \<open>resolveValue\<close> read as
  a choice among the sources.
\<close>

definition chosen ::
  "(jsnum \<Rightarrow> bool) \<Rightarrow> runtime \<Rightarrow> opts \<Rightarrow> schema \<Rightarrow> string \<Rightarrow> string \<Rightarrow> jsval option"
where
  "chosen t rt os sec c k =
     (if (case overrides os of None \<Rightarrow> False | Some ov \<Rightarrow> checkExists ov c k)
      then Some (case overrides os of None \<Rightarrow> JUndefined | Some ov \<Rightarrow> getValue ov c k)
      else
        (case process_env rt (varName c k) of
           Some (x # xs) \<Rightarrow> Some (envarValue t rt os (x # xs))
         | _ \<Rightarrow> if checkExists sec c k then Some (getValue sec c k) else None))"

section \<open>Concrete surroundings for the examples\<close>

text \<open>
  A runtime for evaluating examples, from a list of environment variables and a list of
  module files. Its \<open>JSON_parse\<close> and \<open>Number\<close> are finite tables of the builtins: they
  give what ECMAScript gives at the arguments listed (\<^verbatim>\<open>JSON.parse("42")\<close> is 42,
  \<^verbatim>\<open>JSON.parse("true")\<close> is \<^verbatim>\<open>true\<close>, \<^verbatim>\<open>JSON.parse("not json")\<close> throws, \<^verbatim>\<open>Number(true)\<close>
  is 1, \<^verbatim>\<open>Number("not json")\<close> is not-a-number) and are not meant beyond them. No general
  statement rests on this runtime.
\<close>

definition table_runtime :: "(string \<times> string) list \<Rightarrow> (string \<times> schema) list \<Rightarrow> runtime" where
  "table_runtime vars files =
     \<lparr> JSON_parse = (\<lambda>s. if s = ''42'' then Some (JNum (Finite 42))
                         else if s = ''true'' then Some (JBool True)
                         else if s = ''false'' then Some (JBool False)
                         else if s = ''null'' then Some JNull
                         else None),
       Number = (\<lambda>v. case v of
                         JNull \<Rightarrow> Finite 0
                       | JBool b \<Rightarrow> Finite (if b then 1 else 0)
                       | JNum n \<Rightarrow> n
                       | JStr s \<Rightarrow> (if s = [] then Finite 0 else if s = ''42'' then Finite 42 else NaN)
                       | _ \<Rightarrow> NaN),
       path_join = (\<lambda>dir file. dir @ ''/'' @ file),
       require = map_of files,
       process_cwd = ''/app'',
       process_env = map_of vars \<rparr>"

text \<open>The options of a call \<^verbatim>\<open>loadConfig(config)\<close>, where \<^verbatim>\<open>opts\<close> is \<^verbatim>\<open>{}\<close>.\<close>

definition no_opts :: opts where
  "no_opts = \<lparr> overrides = None, workingDir = None, disableEnvarParsing = JUndefined \<rparr>"

text \<open>A schema in strict mode with a value that no source defines.\<close>

definition strict_schema :: schema where
  "strict_schema =
     [(''config'', [(''errorOnUndefined'', JBool True)]),
      (''db'', [(''host'', JStr ''localhost''), (''password'', JUndefined)])]"

text \<open>A schema with defaults, for the examples of the sources' priority.\<close>

definition layered_schema :: schema where
  "layered_schema = [(''db'', [(''host'', JStr ''localhost''), (''port'', JNum (Finite 5432))])]"

text \<open>
  Sources that name a key (\<^verbatim>\<open>db.extra\<close>) and a category (\<^verbatim>\<open>cache\<close>) which
  \<open>layered_schema\<close> does not have.
\<close>

definition foreign_sources :: schema where
  "foreign_sources =
     [(''db'', [(''host'', JStr ''h''), (''extra'', JNum (Finite 1))]),
      (''cache'', [(''ttl'', JNum (Finite 60))])]"

text \<open>
  A value whose first undefined leaf, in the order of the loops, is element 1 of the array
  \<^verbatim>\<open>tags\<close>; a second one follows it.
\<close>

definition holed_value :: jsval where
  "holed_value =
     JObj [(''name'', JStr []), (''tags'', JArr [JNull, JUndefined]), (''owner'', JUndefined)]"


section \<open>Properties of the undefined check\<close>

lemma check_fst:
  "fst (checkForUndefinedRecursive v k) = (\<not> undefinedLeaf v)"
  "fst (checkProps props) = (\<forall>p \<in> set props. \<not> undefinedLeaf (snd p))"
  "fst (checkItems items i) = (\<forall>v \<in> set items. \<not> undefinedLeaf v)"
  by (induction v k and props and items i
      rule: checkForUndefinedRecursive_checkProps_checkItems.induct)
     (force split: prod.splits)+

lemma check_log_length:
  "length (snd (checkForUndefinedRecursive v k)) =
     (if fst (checkForUndefinedRecursive v k) then 0 else 1)"
  "length (snd (checkProps props)) = (if fst (checkProps props) then 0 else 1)"
  "length (snd (checkItems items i)) = (if fst (checkItems items i) then 0 else 1)"
  by (induction v k and props and items i
      rule: checkForUndefinedRecursive_checkProps_checkItems.induct)
     (auto split: prod.splits)

lemma checkProps_short:
  "\<not> fst (checkProps props) \<Longrightarrow> checkProps (props @ others) = checkProps props"
  by (induction props) (auto split: prod.splits)

lemma checkItems_short:
  "\<not> fst (checkItems items i) \<Longrightarrow> checkItems (items @ others) i = checkItems items i"
  by (induction items arbitrary: i) (auto split: prod.splits)


section \<open>Properties of the resolution loop\<close>

lemma strictNotEqual_NaN: "strictNotEqual num NaN"
  by (simp add: strictNotEqual_def)

lemma never_detected: "\<not> undefinedDetected config"
  by (simp add: undefinedDetected_def module_this_def split: option.splits)

lemma loadConfigWith_Some:
  "loadConfigWith t rt (Some S) os =
     Inr (forCategoryKeys t rt os (loadSecret rt os) (map fst S) S)"
  by (simp add: loadConfigWith_def never_detected Let_def)

lemma resolveValue_chosen:
  "resolveValue t rt os sec c k cat =
     (case chosen t rt os sec c k of None \<Rightarrow> cat | Some w \<Rightarrow> AList.update k w cat)"
  by (simp add: resolveValue_def chosen_def split: option.splits list.splits)




lemma keys_resolveValue:
  "k \<in> fst ` set cat \<Longrightarrow> map fst (resolveValue t rt os sec c k cat) = map fst cat"
  by (simp add: resolveValue_chosen update_keys split: option.splits)

lemma keys_forValueKeys:
  "set ks \<subseteq> fst ` set cat \<Longrightarrow> map fst (forValueKeys t rt os sec c ks cat) = map fst cat"
proof (induction ks arbitrary: cat)
  case Nil
  then show ?case by simp
next
  case (Cons k ks)
  have same: "map fst (resolveValue t rt os sec c k cat) = map fst cat"
    using Cons.prems by (simp add: keys_resolveValue)
  then have "set ks \<subseteq> fst ` set (resolveValue t rt os sec c k cat)"
    using Cons.prems by (metis list.set_map set_subset_Cons subset_trans)
  with same show ?case using Cons.IH by simp
qed







lemma shape_update:
  "map_of S c = Some cat \<Longrightarrow> map fst cat' = map fst cat \<Longrightarrow> shape (AList.update c cat' S) = shape S"
  by (induction S) (auto simp: shape_def)

lemma shape_forCategoryKeys: "shape (forCategoryKeys t rt os sec cs S) = shape S"
proof (induction cs arbitrary: S)
  case Nil
  then show ?case by simp
next
  case (Cons c cs)
  show ?case
  proof (cases "map_of S c")
    case None
    then show ?thesis using Cons.IH by simp
  next
    case (Some cat)
    have "map fst (forValueKeys t rt os sec c (map fst cat) cat) = map fst cat"
      by (rule keys_forValueKeys) simp
    then show ?thesis using Some Cons.IH by (simp add: shape_update)
  qed
qed

lemma envarValue_require: "envarValue t (rt\<lparr>require := r\<rparr>) os s = envarValue t rt os s"
  by (simp add: envarValue_def)

lemma resolveValue_require:
  "resolveValue t (rt\<lparr>require := r\<rparr>) os sec c k cat = resolveValue t rt os sec c k cat"
  by (simp add: resolveValue_def envarValue_require split: option.splits list.splits)

lemma forValueKeys_require:
  "forValueKeys t (rt\<lparr>require := r\<rparr>) os sec c ks cat = forValueKeys t rt os sec c ks cat"
  by (induction ks arbitrary: cat) (simp_all add: resolveValue_require)

lemma forCategoryKeys_require:
  "forCategoryKeys t (rt\<lparr>require := r\<rparr>) os sec cs S = forCategoryKeys t rt os sec cs S"
  by (induction cs arbitrary: S) (simp_all add: forValueKeys_require split: option.splits)

lemma secretPath_require: "secretPath (rt\<lparr>require := r\<rparr>) os = secretPath rt os"
  by (simp add: secretPath_def workingDirOf_def split: option.splits)





lemma indexKey_one: "indexKey (Suc 0) = ''1''"
  by code_simp

lemma single_envar:
  assumes "process_env rt (''conf_'' @ c @ ''_'' @ k) = Some (x # xs)" and "overrides os = None"
  shows "loadConfigWith t rt (Some [(c, [(k, d)])]) os = Inr [(c, [(k, envarValue t rt os (x # xs))])]"
  using assms by (simp add: loadConfigWith_Some resolveValue_def varName_def)

lemma envar_other_examples:
  assumes "JSON_parse rt ''42'' = Some (JNum (Finite 42))" and "Number rt (JNum (Finite 42)) = Finite 42"
  shows "disableEnvarParsing os \<noteq> JBool True \<Longrightarrow>
           envarValue (\<lambda>num. strictNotEqual num NaN) rt os ''42'' = JNum (Finite 42)
         \<and> envarValue (\<lambda>num. \<not> isNaN num) rt os ''42'' = JNum (Finite 42)"
    and "disableEnvarParsing os = JBool True \<Longrightarrow>
           envarValue (\<lambda>num. strictNotEqual num NaN) rt os ''42'' = JStr ''42''
         \<and> envarValue (\<lambda>num. \<not> isNaN num) rt os ''42'' = JStr ''42''"
  using assms by (simp_all add: envarValue_def strictNotEqual_def isNaN_def)

lemma envarValue_agree:
  "Number rt (case JSON_parse rt s of None \<Rightarrow> JStr s | Some j \<Rightarrow> j) \<noteq> NaN \<Longrightarrow>
   envarValue (\<lambda>num. strictNotEqual num NaN) rt os s = envarValue (\<lambda>num. \<not> isNaN num) rt os s"
  by (simp add: envarValue_def strictNotEqual_def isNaN_def Let_def)

section \<open>The claims\<close>



text \<open>
  C2. The claim: with \<^verbatim>\<open>config.errorOnUndefined\<close> truthy, a resolved schema with an undefined
  leaf makes the resolution fail. The code does not do that. The check that guards the
  \<^verbatim>\<open>throw\<close> is run on \<^verbatim>\<open>this\<close>, the empty exports object of the module, not on the
  resolved schema, so it never finds anything: on \<open>strict_schema\<close>, where
  \<^verbatim>\<open>errorOnUndefined\<close> is \<^verbatim>\<open>true\<close> and \<^verbatim>\<open>db.password\<close> stays undefined, \<^verbatim>\<open>loadConfig\<close> of
  either file returns the schema, although the check of the schema itself reports
  \<^verbatim>\<open>password\<close>.
\<close>

theorem strict_mode_does_not_fail:
  "loadConfig (table_runtime [] []) (Some strict_schema) no_opts = Inr strict_schema
   \<and> loadConfig_part_000 (table_runtime [] []) (Some strict_schema) no_opts = Inr strict_schema
   \<and> undefinedLeaf (schemaValue strict_schema)
   \<and> checkForUndefinedRecursive (schemaValue strict_schema) ''this'' =
       (False, [''Item with key password is undefined''])"
  by (simp add: loadConfig_def loadConfig_part_000_def loadConfigWith_Some strict_schema_def
      resolveValue_def table_runtime_def no_opts_def loadSecret_def checkExists_def schemaValue_def)

text \<open>
  C3. The claim: the environment string \<^verbatim>\<open>"true"\<close> resolves to the boolean \<^verbatim>\<open>true\<close>. The
  code does not do that. \<^verbatim>\<open>JSON.parse("true")\<close> is \<^verbatim>\<open>true\<close>, but \<^verbatim>\<open>Number(true)\<close> is 1,
  which is a number in either file's test, so the value stored is the number 1: in every
  runtime where the two builtins give these results, with the variable
  \<^verbatim>\<open>conf_feature_enabled\<close> set to \<^verbatim>\<open>"true"\<close>, no overrides and parsing not disabled,
  \<^verbatim>\<open>loadConfig\<close> of either file resolves \<^verbatim>\<open>feature.enabled\<close> to 1.
\<close>

theorem envar_true_becomes_one:
  assumes "JSON_parse rt ''true'' = Some (JBool True)" and "Number rt (JBool True) = Finite 1"
    and "process_env rt ''conf_feature_enabled'' = Some ''true''"
    and "overrides os = None" and "disableEnvarParsing os \<noteq> JBool True"
  shows "loadConfig rt (Some [(''feature'', [(''enabled'', d)])]) os =
           Inr [(''feature'', [(''enabled'', JNum (Finite 1))])]
       \<and> loadConfig_part_000 rt (Some [(''feature'', [(''enabled'', d)])]) os =
           Inr [(''feature'', [(''enabled'', JNum (Finite 1))])]"
  using assms single_envar [of rt "''feature''" "''enabled''" "CHR ''t''" "''rue''" os _ d]
  by (simp add: loadConfig_def loadConfig_part_000_def envarValue_def strictNotEqual_def isNaN_def)

theorem envar_true_becomes_one_witness:
  "loadConfig (table_runtime [(''conf_feature_enabled'', ''true'')] [])
     (Some [(''feature'', [(''enabled'', JBool False)])]) no_opts =
     Inr [(''feature'', [(''enabled'', JNum (Finite 1))])]
   \<and> loadConfig_part_000 (table_runtime [(''conf_feature_enabled'', ''true'')] [])
     (Some [(''feature'', [(''enabled'', JBool False)])]) no_opts =
     Inr [(''feature'', [(''enabled'', JNum (Finite 1))])]"
  using envar_true_becomes_one [of "table_runtime [(''conf_feature_enabled'', ''true'')] []" no_opts "JBool False"]
  by (simp add: table_runtime_def no_opts_def)

text \<open>
  C4. The claim: the two \<^verbatim>\<open>loadConfig\<close> definitions give the same result on every input.
  They do not. For an environment string that is neither JSON nor a number, \<^verbatim>\<open>Number\<close>
  gives not-a-number; \<^verbatim>\<open>num !== NaN\<close> of \<^verbatim>\<open>src/config.js\<close> holds all the same and the
  value stored is not-a-number, while \<^verbatim>\<open>!isNaN(num)\<close> of the second file keeps the
  string: with \<^verbatim>\<open>conf_app_name\<close> set to \<^verbatim>\<open>"not json"\<close>, the first file resolves
  \<^verbatim>\<open>app.name\<close> to not-a-number and the second to \<^verbatim>\<open>"not json"\<close>.
\<close>

theorem versions_differ_on_non_numeric_envar:
  assumes "JSON_parse rt ''not json'' = None" and "Number rt (JStr ''not json'') = NaN"
    and "process_env rt ''conf_app_name'' = Some ''not json''"
    and "overrides os = None" and "disableEnvarParsing os \<noteq> JBool True"
  shows "loadConfig rt (Some [(''app'', [(''name'', d)])]) os =
           Inr [(''app'', [(''name'', JNum NaN)])]
       \<and> loadConfig_part_000 rt (Some [(''app'', [(''name'', d)])]) os =
           Inr [(''app'', [(''name'', JStr ''not json'')])]"
  using assms single_envar [of rt "''app''" "''name''" "CHR ''n''" "''ot json''" os _ d]
  by (simp add: loadConfig_def loadConfig_part_000_def envarValue_def strictNotEqual_def isNaN_def)

theorem versions_differ_on_non_numeric_envar_witness:
  "loadConfig (table_runtime [(''conf_app_name'', ''not json'')] [])
     (Some [(''app'', [(''name'', JStr ''demo'')])]) no_opts =
     Inr [(''app'', [(''name'', JNum NaN)])]
   \<and> loadConfig_part_000 (table_runtime [(''conf_app_name'', ''not json'')] [])
     (Some [(''app'', [(''name'', JStr ''demo'')])]) no_opts =
     Inr [(''app'', [(''name'', JStr ''not json'')])]
   \<and> loadConfig (table_runtime [(''conf_app_name'', ''not json'')] [])
     (Some [(''app'', [(''name'', JStr ''demo'')])]) no_opts \<noteq>
     loadConfig_part_000 (table_runtime [(''conf_app_name'', ''not json'')] [])
     (Some [(''app'', [(''name'', JStr ''demo'')])]) no_opts"
  using versions_differ_on_non_numeric_envar
          [of "table_runtime [(''conf_app_name'', ''not json'')] []" no_opts "JStr ''demo''"]
  by (simp add: table_runtime_def no_opts_def)



text \<open>
  C6. Whatever the overrides, the secret configuration and the environment contain,
  \<^verbatim>\<open>loadConfig\<close> of either file returns an object with exactly the categories of the
  schema and, in each category, exactly its keys, in the same order: none is added and
  none is removed.
\<close>

theorem shape_preserved:
  "(\<exists>S'. loadConfig rt (Some S) os = Inr S' \<and> shape S' = shape S)
   \<and> (\<exists>S'. loadConfig_part_000 rt (Some S) os = Inr S' \<and> shape S' = shape S)"
  by (simp add: loadConfig_def loadConfig_part_000_def loadConfigWith_Some shape_forCategoryKeys)

theorem shape_preserved_witness:
  "(\<exists>S'. loadConfig (table_runtime [(''conf_db_extra'', ''42''), (''conf_cache_ttl'', ''42'')]
                         [(''/app/.conf.js'', foreign_sources)])
            (Some layered_schema) (no_opts\<lparr>overrides := Some foreign_sources\<rparr>) = Inr S'
         \<and> shape S' = [(''db'', [''host'', ''port''])])"
  using shape_preserved [of "table_runtime [(''conf_db_extra'', ''42''), (''conf_cache_ttl'', ''42'')]
                         [(''/app/.conf.js'', foreign_sources)]" layered_schema
                         "no_opts\<lparr>overrides := Some foreign_sources\<rparr>"]
  by (auto simp: shape_def layered_schema_def)

text \<open>
  C7. When \<^verbatim>\<open>require\<close> of the secret configuration file fails, \<^verbatim>\<open>loadConfig\<close> of either
  file, called with a schema, does not fail and returns what it returns when the file
  exists and exports the empty object.
\<close>

theorem missing_secret_is_empty:
  assumes "require rt (secretPath rt os) = None"
  shows "loadConfig rt (Some S) os =
           loadConfig (rt\<lparr>require := (require rt)(secretPath rt os \<mapsto> [])\<rparr>) (Some S) os
       \<and> (\<exists>S'. loadConfig rt (Some S) os = Inr S')
       \<and> loadConfig_part_000 rt (Some S) os =
           loadConfig_part_000 (rt\<lparr>require := (require rt)(secretPath rt os \<mapsto> [])\<rparr>) (Some S) os
       \<and> (\<exists>S'. loadConfig_part_000 rt (Some S) os = Inr S')"
  using assms
  by (simp add: loadConfig_def loadConfig_part_000_def loadConfigWith_Some loadSecret_def
      secretPath_require forCategoryKeys_require)

theorem missing_secret_is_empty_witness:
  "loadConfig (table_runtime [(''conf_db_port'', ''42'')] []) (Some layered_schema) no_opts =
     loadConfig (table_runtime [(''conf_db_port'', ''42'')] [(''/app/.conf.js'', [])]) (Some layered_schema) no_opts
   \<and> loadConfig (table_runtime [(''conf_db_port'', ''42'')] []) (Some layered_schema) no_opts =
       Inr [(''db'', [(''host'', JStr ''localhost''), (''port'', JNum (Finite 42))])]"
proof -
  let ?rt = "table_runtime [(''conf_db_port'', ''42'')] []"
  have p: "secretPath ?rt no_opts = ''/app/.conf.js''"
    by (simp add: secretPath_def workingDirOf_def table_runtime_def no_opts_def)
  have h: "require ?rt (secretPath ?rt no_opts) = None"
    by (simp add: p) (simp add: table_runtime_def)
  have u: "?rt\<lparr>require := (require ?rt)(secretPath ?rt no_opts \<mapsto> [])\<rparr> =
           table_runtime [(''conf_db_port'', ''42'')] [(''/app/.conf.js'', [])]"
    by (simp add: p) (simp add: table_runtime_def)
  have v: "loadConfig ?rt (Some layered_schema) no_opts =
       Inr [(''db'', [(''host'', JStr ''localhost''), (''port'', JNum (Finite 42))])]"
    by (simp add: loadConfig_def loadConfigWith_Some loadSecret_def p layered_schema_def
        resolveValue_def varName_def checkExists_def table_runtime_def no_opts_def
        envarValue_def strictNotEqual_def)
  show ?thesis
    using missing_secret_is_empty [OF h, of layered_schema] u v by simp
qed

text \<open>
  C8. When \<^verbatim>\<open>loadConfig\<close> of either file is called without a schema and \<^verbatim>\<open>require\<close> of
  the default schema file in the working directory fails, the call fails with that load
  error: no other value is tried.
\<close>

theorem missing_default_fails:
  assumes "require rt (defaultPath rt os) = None"
  shows "loadConfig rt None os = Inl (ModuleNotFound (defaultPath rt os))
       \<and> loadConfig_part_000 rt None os = Inl (ModuleNotFound (defaultPath rt os))"
  using assms by (simp add: loadConfig_def loadConfig_part_000_def loadConfigWith_def)

theorem missing_default_fails_witness:
  "loadConfig (table_runtime [] [(''/app/.conf.js'', layered_schema)]) None no_opts =
     Inl (ModuleNotFound ''/app/.conf.default.js'')
   \<and> loadConfig_part_000 (table_runtime [] [(''/app/.conf.js'', layered_schema)]) None no_opts =
     Inl (ModuleNotFound ''/app/.conf.default.js'')"
  using missing_default_fails [of "table_runtime [] [(''/app/.conf.js'', layered_schema)]" no_opts]
  by (simp add: defaultPath_def workingDirOf_def table_runtime_def no_opts_def)

text \<open>
  C9. On a string, \<^verbatim>\<open>checkForUndefinedRecursive\<close> returns true and reports nothing. On
  every value it returns false exactly when the value has an undefined leaf, and then it
  reports exactly one item: the check stops at the first undefined leaf, so that what
  follows it in the object or array changes neither the result nor the report.
\<close>

theorem undefined_check_correct:
  "checkForUndefinedRecursive (JStr s) key = (True, [])
   \<and> fst (checkForUndefinedRecursive v key) = (\<not> undefinedLeaf v)
   \<and> length (snd (checkForUndefinedRecursive v key)) = (if undefinedLeaf v then 1 else 0)
   \<and> (undefinedLeaf (JObj props) \<longrightarrow>
        checkForUndefinedRecursive (JObj (props @ others)) key =
        checkForUndefinedRecursive (JObj props) key)
   \<and> (undefinedLeaf (JArr items) \<longrightarrow>
        checkForUndefinedRecursive (JArr (items @ further)) key =
        checkForUndefinedRecursive (JArr items) key)"
proof -
  have "undefinedLeaf (JObj props) \<Longrightarrow> checkProps (props @ others) = checkProps props"
    using check_fst(2) [of props] by (intro checkProps_short) simp
  moreover have "undefinedLeaf (JArr items) \<Longrightarrow> checkItems (items @ further) 0 = checkItems items 0"
    using check_fst(3) [of items 0] by (intro checkItems_short) simp
  ultimately show ?thesis
    by (simp add: check_fst(1) check_log_length(1))
qed

theorem undefined_check_correct_witness:
  "checkForUndefinedRecursive (JStr ''text'') ''this'' = (True, [])
   \<and> \<not> fst (checkForUndefinedRecursive holed_value ''this'')
   \<and> undefinedLeaf holed_value
   \<and> checkForUndefinedRecursive holed_value ''this'' =
       (False, [''Item with key 1 is undefined''])
   \<and> checkForUndefinedRecursive
        (JObj ([(''name'', JStr []), (''tags'', JArr [JNull, JUndefined])] @ [(''owner'', JUndefined)]))
        ''this'' =
      checkForUndefinedRecursive
        (JObj [(''name'', JStr []), (''tags'', JArr [JNull, JUndefined])]) ''this''
   \<and> checkForUndefinedRecursive (JArr ([JNull, JUndefined] @ [JUndefined])) ''tags'' =
      checkForUndefinedRecursive (JArr [JNull, JUndefined]) ''tags''"
  using undefined_check_correct [of "''text''" "''this''" holed_value
          "[(''name'', JStr []), (''tags'', JArr [JNull, JUndefined])]" "[(''owner'', JUndefined)]"]
        undefined_check_correct [of "''text''" "''tags''" holed_value
          "[(''name'', JStr []), (''tags'', JArr [JNull, JUndefined])]" "[(''owner'', JUndefined)]"
          "[JNull, JUndefined]" "[JUndefined]"]
  by (simp add: holed_value_def indexKey_one)



end
